theory Spec2Isabelle
  imports Main
begin

section \<open>JavaScript values, exceptions and the outside world\<close>

text \<open>
  The development embeds the abstract class \<^verbatim>\<open>LocalBrowser\<close> (local-browser.js) and the
  methods \<^verbatim>\<open>getLocalBrowsers\<close> and \<^verbatim>\<open>killWebDriver\<close> of \<^verbatim>\<open>SeleniumAssistant\<close>
  (index.js). A JavaScript call either returns a value or throws: every call that can
  throw is a value of \<open>'a outcome\<close>, and \<^verbatim>\<open>try { ... } catch (e) { ... }\<close> is a case
  distinction on it.
\<close>

datatype js_error = Error string | TypeError string | SystemError string

datatype 'a outcome = Returns 'a | Throws js_error

text \<open>
  The primitive values the code inspects. \<open>JObject\<close> stands for any object value without
  further structure; it is truthy and its \<^verbatim>\<open>typeof\<close> is neither \<^verbatim>\<open>'string'\<close> nor
  \<^verbatim>\<open>'function'\<close>. Numbers are the integers (version numbers).
\<close>

datatype js_value = JUndefined | JNull | JBool bool | JNum int | JStr string | JObject

fun truthy :: "js_value \<Rightarrow> bool" where
  "truthy JUndefined = False"
| "truthy JNull = False"
| "truthy (JBool b) = b"
| "truthy (JNum n) = (n \<noteq> 0)"
| "truthy (JStr s) = (s \<noteq> [])"
| "truthy JObject = True"

text \<open>
  \<^verbatim>\<open>getExecutablePath()\<close> is documented to return a \<^verbatim>\<open>String\<close> or \<^verbatim>\<open>null\<close>: \<open>None\<close> is
  \<^verbatim>\<open>null\<close>. \<^verbatim>\<open>_getMinSupportedVersion()\<close> is documented to return a number and returns
  \<^verbatim>\<open>false\<close> in the base class: \<open>None\<close> is \<^verbatim>\<open>false\<close>. Both are tested for truthiness by
  the code, so the empty string and the number zero count as absent.
\<close>

definition truthy_path :: "string option \<Rightarrow> bool" where
  "truthy_path p = (case p of None \<Rightarrow> False | Some s \<Rightarrow> s \<noteq> [])"

text \<open>The characters of a path; it is applied to truthy paths only.\<close>

definition path_string :: "string option \<Rightarrow> string" where
  "path_string p = (case p of None \<Rightarrow> ''null'' | Some s \<Rightarrow> s)"

definition truthy_version :: "int option \<Rightarrow> bool" where
  "truthy_version v = (case v of None \<Rightarrow> False | Some n \<Rightarrow> n \<noteq> 0)"

text \<open>\<^verbatim>\<open>ToNumber\<close> of a minimum version, for \<^verbatim>\<open>>=\<close>: \<^verbatim>\<open>false\<close> converts to zero.\<close>

definition to_number :: "int option \<Rightarrow> int" where
  "to_number v = (case v of None \<Rightarrow> 0 | Some n \<Rightarrow> n)"

text \<open>
  What lies outside the object: the file system as seen by \<^verbatim>\<open>fs.lstatSync\<close>, the child
  processes started by \<^verbatim>\<open>execSync\<close>, the module loader, and the process environment.
  A process launch need not give the same result twice, so \<open>exec_result\<close> takes the number
  of launches made before; \<open>exec_calls\<close> records every command launched, in order.
\<close>

record driver_module =
  module_path :: string

record world =
  lstatSync :: "string \<Rightarrow> unit outcome"
  exec_result :: "nat \<Rightarrow> string \<Rightarrow> string outcome"
  exec_calls :: "string list"
  require :: "js_value \<Rightarrow> driver_module outcome"
  path_dirname :: "string \<Rightarrow> string"
  path_delimiter :: string
  env_PATH :: string

definition execSync :: "string \<Rightarrow> world \<Rightarrow> string outcome \<times> world" where
  "execSync cmd w =
     (exec_result w (length (exec_calls w)) cmd, w\<lparr>exec_calls := exec_calls w @ [cmd]\<rparr>)"

section \<open>Promises in virtual time\<close>

text \<open>
  A promise is described by its fate: it never settles, or it settles, fulfilled with a
  value or rejected with an error. The number with it is the nominal time of that, in
  milliseconds after the call that produced the promise, on a clock where
  \<^verbatim>\<open>setTimeout(f, d)\<close> runs \<open>f\<close> at \<open>d\<close> and synchronous code takes no time. A real timer
  runs its callback no earlier than its delay, so a nominal time says which of two events
  comes first and which delays add up; it is no upper bound on elapsed wall-clock time.
\<close>

datatype 'a settled = Fulfilled 'a | Rejected js_error

datatype 'a promise = Never_settles | Settles nat "'a settled"

definition Promise_resolve :: "'a \<Rightarrow> 'a promise" where
  "Promise_resolve v = Settles 0 (Fulfilled v)"

definition Promise_reject :: "js_error \<Rightarrow> 'a promise" where
  "Promise_reject e = Settles 0 (Rejected e)"

text \<open>\<^verbatim>\<open>new Promise((resolve) => setTimeout(resolve, d))\<close>\<close>

definition timeout_promise :: "nat \<Rightarrow> js_value promise" where
  "timeout_promise d = Settles d (Fulfilled JUndefined)"

text \<open>A promise created \<open>t\<close> ms after the reference point, seen from that point.\<close>

fun delayed :: "nat \<Rightarrow> 'a promise \<Rightarrow> 'a promise" where
  "delayed t Never_settles = Never_settles"
| "delayed t (Settles u r) = Settles (t + u) r"

text \<open>
  \<^verbatim>\<open>p.then(onFulfilled)\<close> with no rejection handler: a rejection passes through, a
  fulfilment runs the callback, whose promise the result follows.
\<close>

fun promise_then :: "'a promise \<Rightarrow> ('a \<Rightarrow> 'b promise) \<Rightarrow> 'b promise" where
  "promise_then Never_settles f = Never_settles"
| "promise_then (Settles t (Rejected e)) f = Settles t (Rejected e)"
| "promise_then (Settles t (Fulfilled v)) f = delayed t (f v)"

section \<open>The class LocalBrowser\<close>

text \<open>
  The fields a \<^verbatim>\<open>LocalBrowser\<close> instance carries: \<^verbatim>\<open>_prettyName\<close>, \<^verbatim>\<open>_release\<close>,
  \<^verbatim>\<open>_blacklist\<close> (browser version : driver version) and the lazily filled
  \<^verbatim>\<open>_rawVerstionString\<close> (spelled as in the source), which no constructor assigns.
\<close>

record local_browser =
  prettyName :: string
  release :: js_value
  blacklist :: "(int \<times> string) list"
  rawVerstionString :: js_value

record config =
  config_prettyName :: js_value

text \<open>
  The result of \<^verbatim>\<open>builder.build()\<close>: \<^verbatim>\<open>null\<close> or \<^verbatim>\<open>undefined\<close> (reading \<^verbatim>\<open>.then\<close> of
  it throws a \<^verbatim>\<open>TypeError\<close>), a session with no truthy \<^verbatim>\<open>then\<close> property, or a value
  with one (a deferred session). A builder is what its \<^verbatim>\<open>build()\<close> does.
\<close>

datatype 'd build_result = BuildNullish | BuildSession 'd | BuildThenable "'d promise"

datatype 'd builder = Builder (build: "'d build_result outcome")

text \<open>
  \<^verbatim>\<open>LocalBrowser\<close> is abstract: the methods below are dispatched on the instance's class,
  and a class is the table of its implementations. Each reads the instance and the world.
  \<^verbatim>\<open>getDriverModule\<close> and \<^verbatim>\<open>getId\<close> are inherited from \<^verbatim>\<open>Browser\<close> (browser.js, not
  part of the embedded sources) and are taken as the values they return.
\<close>

record 'd browser_class =
  getPrettyReleaseNames :: "(js_value \<rightharpoonup> string) outcome"
  getExecutablePath :: "world \<Rightarrow> local_browser \<Rightarrow> string option outcome"
  getVersionNumber :: "world \<Rightarrow> local_browser \<Rightarrow> int outcome"
  isBlackListed :: "world \<Rightarrow> local_browser \<Rightarrow> bool outcome"
  getMinSupportedVersion :: "world \<Rightarrow> local_browser \<Rightarrow> int option outcome"
  getSeleniumDriverBuilder :: "world \<Rightarrow> local_browser \<Rightarrow> 'd builder outcome"
  getDriverModule :: "local_browser \<Rightarrow> js_value"
  getId :: "local_browser \<Rightarrow> js_value"

subsection \<open>The implementations LocalBrowser itself gives\<close>

definition LocalBrowser_getPrettyReleaseNames :: "(js_value \<rightharpoonup> string) outcome" where
  "LocalBrowser_getPrettyReleaseNames =
     Throws (Error ''getPrettyReleaseNames() must be overriden by subclasses'')"

definition LocalBrowser_getExecutablePath :: "world \<Rightarrow> local_browser \<Rightarrow> string option outcome" where
  "LocalBrowser_getExecutablePath w this =
     Throws (Error ''getExecutablePath() must be overriden by subclasses'')"

definition LocalBrowser_getVersionNumber :: "world \<Rightarrow> local_browser \<Rightarrow> int outcome" where
  "LocalBrowser_getVersionNumber w this =
     Throws (Error ''getVersionNumber() must be overriden by subclasses'')"

definition LocalBrowser_isBlackListed :: "world \<Rightarrow> local_browser \<Rightarrow> bool outcome" where
  "LocalBrowser_isBlackListed w this = Returns False"

definition LocalBrowser_getMinSupportedVersion :: "world \<Rightarrow> local_browser \<Rightarrow> int option outcome" where
  "LocalBrowser_getMinSupportedVersion w this = Returns None"

definition LocalBrowser_getSeleniumDriverBuilder :: "world \<Rightarrow> local_browser \<Rightarrow> 'd builder outcome" where
  "LocalBrowser_getSeleniumDriverBuilder w this =
     Throws (Error ''getSeleniumDriverBuilder() must be overriden by subclasses'')"

subsection \<open>constructor, getPrettyName, getReleaseName\<close>

text \<open>
  \<^verbatim>\<open>super(config)\<close> runs the constructor of \<^verbatim>\<open>Browser\<close>, which is given as the parameter
  \<open>super\<close>. \<^verbatim>\<open>new Error(msg, x)\<close> keeps the message \<open>msg\<close> only.
\<close>

definition invalid_prettyName :: "js_value \<Rightarrow> bool" where
  "invalid_prettyName v = (case v of JStr s \<Rightarrow> length s = 0 | _ \<Rightarrow> True)"

definition string_of :: "js_value \<Rightarrow> string" where
  "string_of v = (case v of JStr s \<Rightarrow> s | _ \<Rightarrow> [])"

definition LocalBrowser_constructor ::
  "'d browser_class \<Rightarrow> (config \<Rightarrow> unit outcome) \<Rightarrow> config \<Rightarrow> js_value \<Rightarrow> (int \<times> string) list
     \<Rightarrow> local_browser outcome" where
  "LocalBrowser_constructor cls super cfg rel bl =
     (case super cfg of
        Throws e \<Rightarrow> Throws e
      | Returns _ \<Rightarrow>
          if invalid_prettyName (config_prettyName cfg)
          then Throws (Error ''Invalid prettyName value: '')
          else if rel \<noteq> JStr ''stable'' \<and> rel \<noteq> JStr ''beta'' \<and> rel \<noteq> JStr ''unstable''
          then Throws (Error ''Unexpected browser release given: '')
          else
            (case getPrettyReleaseNames cls of
               Throws e \<Rightarrow> Throws e
             | Returns releaseNames \<Rightarrow>
                 Returns \<lparr>prettyName =
                            (case releaseNames rel of
                               None \<Rightarrow> string_of (config_prettyName cfg)
                             | Some suffix \<Rightarrow>
                                 if suffix \<noteq> []
                                 then string_of (config_prettyName cfg) @ '' '' @ suffix
                                 else string_of (config_prettyName cfg)),
                          release = rel,
                          blacklist = bl,
                          rawVerstionString = JUndefined\<rparr>))"

definition getPrettyName :: "local_browser \<Rightarrow> string" where
  "getPrettyName this = prettyName this"

definition getReleaseName :: "local_browser \<Rightarrow> js_value" where
  "getReleaseName this = release this"

subsection \<open>isValid\<close>

text \<open>
  \<open>isValid_try\<close> is the body of the \<^verbatim>\<open>try\<close> block, \<open>isValid\<close> the method: the call of
  \<^verbatim>\<open>getExecutablePath()\<close> stands before the \<^verbatim>\<open>try\<close>, and the empty \<^verbatim>\<open>catch\<close> falls
  through to \<^verbatim>\<open>return false\<close>.
\<close>

definition isValid_try :: "'d browser_class \<Rightarrow> world \<Rightarrow> local_browser \<Rightarrow> string \<Rightarrow> bool outcome" where
  "isValid_try cls w this executablePath =
     (case lstatSync w executablePath of
        Throws e \<Rightarrow> Throws e
      | Returns _ \<Rightarrow>
          (case getMinSupportedVersion cls w this of
             Throws e \<Rightarrow> Throws e
           | Returns minVersion \<Rightarrow>
               if truthy_version minVersion
               then (case getVersionNumber cls w this of
                       Throws e \<Rightarrow> Throws e
                     | Returns v \<Rightarrow> Returns (v \<ge> to_number minVersion))
               else (case isBlackListed cls w this of
                       Throws e \<Rightarrow> Throws e
                     | Returns listed \<Rightarrow> if listed then Returns False else Returns True)))"

definition isValid :: "'d browser_class \<Rightarrow> world \<Rightarrow> local_browser \<Rightarrow> bool outcome" where
  "isValid cls w this =
     (case getExecutablePath cls w this of
        Throws e \<Rightarrow> Throws e
      | Returns executablePath \<Rightarrow>
          if \<not> truthy_path executablePath then Returns False
          else (case isValid_try cls w this (path_string executablePath) of
                  Throws error \<Rightarrow> Returns False
                | Returns r \<Rightarrow> Returns r))"

subsection \<open>getRawVersionString\<close>

text \<open>The command is the template \<^verbatim>\<open>"${executablePath}" --version\<close>, double quotes included.\<close>

definition version_command :: "string option \<Rightarrow> string" where
  "version_command executablePath =
     CHR 0x22 # path_string executablePath @ CHR 0x22 # '' --version''"

definition getRawVersionString ::
  "'d browser_class \<Rightarrow> world \<Rightarrow> local_browser \<Rightarrow> js_value outcome \<times> local_browser \<times> world" where
  "getRawVersionString cls w this =
     (if truthy (rawVerstionString this) then (Returns (rawVerstionString this), this, w)
      else
        (case getExecutablePath cls w this of
           Throws e \<Rightarrow> (Throws e, this, w)
         | Returns executablePath \<Rightarrow>
             if \<not> truthy_path executablePath then (Returns JNull, this, w)
             else
               (case execSync (version_command executablePath) w of
                  (Throws err, w') \<Rightarrow> (Returns JNull, this\<lparr>rawVerstionString := JNull\<rparr>, w')
                | (Returns out, w') \<Rightarrow>
                    (Returns (JStr out), this\<lparr>rawVerstionString := JStr out\<rparr>, w'))))"

text \<open>
  Two calls in a row on the same instance: the results of both, and the instance and the
  world afterwards. \<open>probes_between\<close> counts the processes launched between two worlds.
\<close>

definition getRawVersionString_twice ::
  "'d browser_class \<Rightarrow> world \<Rightarrow> local_browser
     \<Rightarrow> js_value outcome \<times> js_value outcome \<times> local_browser \<times> world" where
  "getRawVersionString_twice cls w this =
     (case getRawVersionString cls w this of
        (r1, this1, w1) \<Rightarrow>
          (case getRawVersionString cls w1 this1 of
             (r2, this2, w2) \<Rightarrow> (r1, r2, this2, w2)))"

definition probes_between :: "world \<Rightarrow> world \<Rightarrow> int" where
  "probes_between w w' = int (length (exec_calls w')) - int (length (exec_calls w))"

subsection \<open>getSeleniumDriver\<close>

text \<open>
  The first block loads the driver module; only for Opera does it extend \<^verbatim>\<open>PATH\<close>. Its
  \<^verbatim>\<open>catch\<close> is empty. The second block is \<open>getSeleniumDriver_try\<close>, whose \<^verbatim>\<open>catch\<close>
  returns \<^verbatim>\<open>Promise.reject(err)\<close>.
\<close>

definition load_driver_module :: "'d browser_class \<Rightarrow> world \<Rightarrow> local_browser \<Rightarrow> world" where
  "load_driver_module cls w this =
     (if truthy (getDriverModule cls this)
      then (case require w (getDriverModule cls this) of
              Throws err \<Rightarrow> w
            | Returns driverModule \<Rightarrow>
                if getId cls this = JStr ''opera''
                then w\<lparr>env_PATH :=
                         env_PATH w @ path_delimiter w @ path_dirname w (module_path driverModule)\<rparr>
                else w)
      else w)"

definition getSeleniumDriver_try ::
  "'d browser_class \<Rightarrow> world \<Rightarrow> local_browser \<Rightarrow> 'd promise outcome" where
  "getSeleniumDriver_try cls w this =
     (case getSeleniumDriverBuilder cls w this of
        Throws e \<Rightarrow> Throws e
      | Returns builder \<Rightarrow>
          (case build builder of
             Throws e \<Rightarrow> Throws e
           | Returns buildResult \<Rightarrow>
               (case buildResult of
                  BuildNullish \<Rightarrow> Throws (TypeError ''Cannot read property then of undefined'')
                | BuildThenable p \<Rightarrow> Returns p
                | BuildSession d \<Rightarrow> Returns (Promise_resolve d))))"

definition getSeleniumDriver ::
  "'d browser_class \<Rightarrow> world \<Rightarrow> local_browser \<Rightarrow> 'd promise outcome \<times> world" where
  "getSeleniumDriver cls w this =
     (let w' = load_driver_module cls w this in
      ((case getSeleniumDriver_try cls w' this of
          Throws err \<Rightarrow> Returns (Promise_reject err)
        | Returns p \<Rightarrow> Returns p),
       w'))"

section \<open>SeleniumAssistant\<close>

subsection \<open>getLocalBrowsers\<close>

text \<open>\<^verbatim>\<open>Array.prototype.filter\<close> with a callback that may throw: the first throw ends it.\<close>

fun js_filter :: "('a \<Rightarrow> bool outcome) \<Rightarrow> 'a list \<Rightarrow> 'a list outcome" where
  "js_filter f [] = Returns []"
| "js_filter f (x # xs) =
     (case f x of
        Throws e \<Rightarrow> Throws e
      | Returns keep \<Rightarrow>
          (case js_filter f xs of
             Throws e \<Rightarrow> Throws e
           | Returns ys \<Rightarrow> Returns (if keep then x # ys else ys)))"

text \<open>
  \<^verbatim>\<open>browserManager.getSupportedBrowsers()\<close> (browser-manager.js, not part of the embedded
  sources) is taken as the list it returns. A browser object is an instance together with
  its class, and \<^verbatim>\<open>webdriverBrowser.isValid()\<close> is dispatched on it. \<open>platform\<close> is
  \<^verbatim>\<open>process.platform\<close>.
\<close>

type_synonym 'd browser = "'d browser_class \<times> local_browser"

definition browser_isValid :: "world \<Rightarrow> 'd browser \<Rightarrow> bool outcome" where
  "browser_isValid w webdriverBrowser = isValid (fst webdriverBrowser) w (snd webdriverBrowser)"

definition getLocalBrowsers :: "string \<Rightarrow> 'd browser list \<Rightarrow> world \<Rightarrow> 'd browser list outcome" where
  "getLocalBrowsers platform supportedBrowsers w =
     (if platform \<noteq> ''darwin'' \<and> platform \<noteq> ''linux''
      then Throws (Error ''Sorry this library only supports OS X and Linux.'')
      else js_filter (browser_isValid w) supportedBrowsers)"

text \<open>
  Modelled from the spec: \<^verbatim>\<open>browserManager.getSupportedBrowsers()\<close> and the local browser
  subclasses it instantiates (browser-manager.js and the subclasses are not part of the
  embedded sources). The spec has \<^verbatim>\<open>listValidLocalBrowsers()\<close> "construct every known local
  variant across all installed releases", and of a variant's \<^verbatim>\<open>getExecutablePath()\<close>: "Must
  return null (not throw) when nothing found -- absence is normal control flow, not an
  error"; the source documents it as returning the "Path of the browsers executable file or
  null if it can't be found". A known class therefore gives \<^verbatim>\<open>getExecutablePath\<close> as a path
  or \<^verbatim>\<open>null\<close>; its other methods are those of any class and may throw.
\<close>

record 'd known_class =
  known_getExecutablePath :: "world \<Rightarrow> local_browser \<Rightarrow> string option"
  known_methods :: "'d browser_class"

definition class_of_known :: "'d known_class \<Rightarrow> 'd browser_class" where
  "class_of_known k =
     (known_methods k)\<lparr>getExecutablePath := (\<lambda>w this. Returns (known_getExecutablePath k w this))\<rparr>"

definition getSupportedBrowsers :: "('d known_class \<times> local_browser) list \<Rightarrow> 'd browser list" where
  "getSupportedBrowsers known = map (\<lambda>k. (class_of_known (fst k), snd k)) known"

subsection \<open>killWebDriver\<close>

text \<open>
  The argument of \<^verbatim>\<open>killWebDriver\<close>: \<^verbatim>\<open>undefined\<close>, \<^verbatim>\<open>null\<close>, or a value whose \<^verbatim>\<open>quit\<close>
  property is missing, is a value that is no function, or is a function. Calling the
  function throws, returns something whose \<^verbatim>\<open>.then(resolve, resolve)\<close> throws a
  \<^verbatim>\<open>TypeError\<close>, or returns a promise. The value such a promise is fulfilled with and
  the error it is rejected with are plain values, not thenables; the synchronous part of
  \<^verbatim>\<open>quit()\<close> returns or throws.
\<close>

datatype quit_result = QuitThrows js_error | QuitNotThenable | QuitPromise "js_value promise"

datatype quit_property = QuitMissing | QuitValue js_value | QuitFunction quit_result

datatype driver = DriverUndefined | DriverNull | DriverObject quit_property

datatype effect = SetTimeout nat | CallQuit | ClearTimeout

fun quit_truthy :: "quit_property \<Rightarrow> bool" where
  "quit_truthy QuitMissing = False"
| "quit_truthy (QuitValue v) = truthy v"
| "quit_truthy (QuitFunction q) = True"

fun quit_is_function :: "quit_property \<Rightarrow> bool" where
  "quit_is_function (QuitFunction q) = True"
| "quit_is_function _ = False"

fun call_quit :: "quit_property \<Rightarrow> quit_result" where
  "call_quit (QuitFunction q) = q"
| "call_quit _ = QuitThrows (TypeError ''driver.quit is not a function'')"

text \<open>What \<^verbatim>\<open>resolve\<close> is called with by \<^verbatim>\<open>.then(resolve, resolve)\<close>: the value or the reason.\<close>

fun resolution_value :: "js_value settled \<Rightarrow> js_value" where
  "resolution_value (Fulfilled v) = v"
| "resolution_value (Rejected e) = JObject"

text \<open>
  The first promise: \<^verbatim>\<open>setTimeout(resolve, 2000)\<close>, then \<^verbatim>\<open>driver.quit().then(resolve,
  resolve)\<close>. An exception inside the executor rejects the promise; otherwise whichever of
  the timer and the quit promise comes first fulfils it (the timer, set first, when both
  are due at 2000 ms).
\<close>

definition quit_or_timeout :: "quit_result \<Rightarrow> js_value promise" where
  "quit_or_timeout q =
     (case q of
        QuitThrows e \<Rightarrow> Promise_reject e
      | QuitNotThenable \<Rightarrow> Promise_reject (TypeError ''driver.quit(...).then is not a function'')
      | QuitPromise p \<Rightarrow>
          (case p of
             Never_settles \<Rightarrow> timeout_promise 2000
           | Settles t r \<Rightarrow>
               if t < 2000 then Settles t (Fulfilled (resolution_value r))
               else timeout_promise 2000))"

definition killWebDriver :: "driver \<Rightarrow> js_value promise outcome \<times> effect list" where
  "killWebDriver driver =
     (case driver of
        DriverUndefined \<Rightarrow> (Returns (Promise_resolve JUndefined), [])
      | DriverNull \<Rightarrow> (Returns (Promise_resolve JUndefined), [])
      | DriverObject quit \<Rightarrow>
          if \<not> quit_truthy quit \<or> \<not> quit_is_function quit
          then (Returns (Promise_reject (Error ''Unable to find a quit method on the web driver.'')),
                [])
          else
            (let first = quit_or_timeout (call_quit quit) in
             (Returns (promise_then first (\<lambda>_. timeout_promise 2000)),
              [SetTimeout 2000, CallQuit] @
                (case first of
                   Settles t (Fulfilled v) \<Rightarrow> [ClearTimeout, SetTimeout 2000]
                 | _ \<Rightarrow> []))))"

section \<open>Example subclasses, instances and worlds\<close>

text \<open>
  Modelled from the spec: the subclasses' override of \<^verbatim>\<open>isBlackListed()\<close> (the local
  browser subclasses are not part of the embedded sources). The spec has
  \<^verbatim>\<open>isBlackListed()\<close> "overridable to consult the blacklist table keyed by resolved
  version number". The argument is the class's \<^verbatim>\<open>getVersionNumber\<close>.
\<close>

definition isBlackListed_by_table ::
  "(world \<Rightarrow> local_browser \<Rightarrow> int outcome) \<Rightarrow> world \<Rightarrow> local_browser \<Rightarrow> bool outcome" where
  "isBlackListed_by_table versionNumber w this =
     (case versionNumber w this of
        Throws e \<Rightarrow> Throws e
      | Returns v \<Rightarrow> Returns (map_of (blacklist this) v \<noteq> None))"

text \<open>
  The concrete inputs of the examples below. \<open>chrome_class\<close> is a subclass that overrides
  every abstract method: the executable is at a fixed path, the version is 54, the minimum
  supported version is 50. \<open>unfinished_class\<close> inherits \<^verbatim>\<open>getExecutablePath\<close> from
  \<^verbatim>\<open>LocalBrowser\<close>; \<open>firefox_class\<close> finds no executable.
\<close>

definition chrome_class :: "unit browser_class" where
  "chrome_class =
     \<lparr>getPrettyReleaseNames = Returns [JStr ''beta'' \<mapsto> ''Beta'', JStr ''unstable'' \<mapsto> ''Dev''],
      getExecutablePath = (\<lambda>w this. Returns (Some ''/usr/bin/google-chrome'')),
      getVersionNumber = (\<lambda>w this. Returns 54),
      isBlackListed = isBlackListed_by_table (\<lambda>w this. Returns 54),
      getMinSupportedVersion = (\<lambda>w this. Returns (Some 50)),
      getSeleniumDriverBuilder = (\<lambda>w this. Returns (Builder (Returns (BuildSession ())))),
      getDriverModule = (\<lambda>this. JStr ''chromedriver''),
      getId = (\<lambda>this. JStr ''chrome'')\<rparr>"

definition unfinished_class :: "unit browser_class" where
  "unfinished_class = chrome_class\<lparr>getExecutablePath := LocalBrowser_getExecutablePath\<rparr>"

definition firefox_class :: "unit browser_class" where
  "firefox_class =
     chrome_class\<lparr>getExecutablePath := (\<lambda>w this. Returns None),
                  getId := (\<lambda>this. JStr ''firefox'')\<rparr>"

definition deferred_class :: "unit browser_class" where
  "deferred_class =
     chrome_class\<lparr>getSeleniumDriverBuilder :=
       (\<lambda>w this. Returns (Builder (Returns (BuildThenable (Settles 1500 (Fulfilled ()))))))\<rparr>"

definition failing_class :: "unit browser_class" where
  "failing_class =
     chrome_class\<lparr>getSeleniumDriverBuilder :=
       (\<lambda>w this. Returns (Builder (Throws (Error ''session not created''))))\<rparr>"

definition chrome_config :: config where
  "chrome_config = \<lparr>config_prettyName = JStr ''Google Chrome''\<rparr>"

definition Browser_constructor_ok :: "config \<Rightarrow> unit outcome" where
  "Browser_constructor_ok cfg = Returns ()"

definition chrome_beta :: local_browser where
  "chrome_beta =
     \<lparr>prettyName = ''Google Chrome Beta'', release = JStr ''beta'',
      blacklist = [(54, ''2.25'')], rawVerstionString = JUndefined\<rparr>"

definition firefox_stable :: local_browser where
  "firefox_stable =
     \<lparr>prettyName = ''Firefox'', release = JStr ''stable'',
      blacklist = [], rawVerstionString = JUndefined\<rparr>"

definition chrome_known :: "unit known_class" where
  "chrome_known =
     \<lparr>known_getExecutablePath = (\<lambda>w this. Some ''/usr/bin/google-chrome''),
      known_methods = chrome_class\<rparr>"

definition firefox_known :: "unit known_class" where
  "firefox_known =
     \<lparr>known_getExecutablePath = (\<lambda>w this. None),
      known_methods = firefox_class\<rparr>"

text \<open>
  In \<open>linux_world\<close> only \<^verbatim>\<open>/usr/bin/google-chrome\<close> exists, and the first process launch
  fails while later ones print a version. In \<open>steady_world\<close> every launch prints it.
\<close>

definition linux_world :: world where
  "linux_world =
     \<lparr>lstatSync = (\<lambda>p. if p = ''/usr/bin/google-chrome'' then Returns ()
                         else Throws (SystemError ''ENOENT: no such file or directory'')),
      exec_result = (\<lambda>n cmd. if n = 0 then Throws (SystemError ''Command failed'')
                               else Returns ''Google Chrome 54.0.2840.59''),
      exec_calls = [],
      require = (\<lambda>m. Throws (Error ''Cannot find module'')),
      path_dirname = (\<lambda>p. p),
      path_delimiter = '':'',
      env_PATH = ''/usr/bin''\<rparr>"

definition steady_world :: world where
  "steady_world = linux_world\<lparr>exec_result := (\<lambda>n cmd. Returns ''Google Chrome 54.0.2840.59'')\<rparr>"

section \<open>Properties of isValid\<close>

lemma isValid_path_returns:
  "getExecutablePath cls w this = Returns executablePath \<Longrightarrow> \<exists>b. isValid cls w this = Returns b"
  by (auto simp: isValid_def split: outcome.splits)

lemma isValid_try_lstat_ok:
  "lstatSync w p = Returns u \<Longrightarrow>
   isValid_try cls w this p =
     (case getMinSupportedVersion cls w this of
        Throws e \<Rightarrow> Throws e
      | Returns minVersion \<Rightarrow>
          if truthy_version minVersion
          then (case getVersionNumber cls w this of
                  Throws e \<Rightarrow> Throws e
                | Returns v \<Rightarrow> Returns (v \<ge> to_number minVersion))
          else (case isBlackListed cls w this of
                  Throws e \<Rightarrow> Throws e
                | Returns listed \<Rightarrow> Returns (\<not> listed)))"
  by (simp add: isValid_try_def split: outcome.splits)

text \<open>
  Claim C1, as amended. For a local browser whose executable path resolves and exists on
  disk: when no minimum supported version is configured (\<^verbatim>\<open>_getMinSupportedVersion()\<close> is
  falsy) and \<^verbatim>\<open>isBlackListed()\<close> returns true, \<^verbatim>\<open>isValid()\<close> returns false; when a minimum
  supported version is configured, \<^verbatim>\<open>isValid()\<close> returns whether the version number reaches
  it, and the blacklist is not consulted.
\<close>

theorem isValid_blacklisted:
  assumes "getExecutablePath cls w this = Returns executablePath"
    and "truthy_path executablePath"
    and "lstatSync w (path_string executablePath) = Returns ()"
    and "getMinSupportedVersion cls w this = Returns minVersion"
  shows "(\<not> truthy_version minVersion \<and> isBlackListed cls w this = Returns True \<longrightarrow>
            isValid cls w this = Returns False) \<and>
         (truthy_version minVersion \<and> getVersionNumber cls w this = Returns v \<longrightarrow>
            isValid cls w this = Returns (v \<ge> to_number minVersion))"
  using assms by (simp add: isValid_def isValid_try_lstat_ok)

text \<open>
  The claim as stated fails: Chrome 54 is in the blacklist table and \<^verbatim>\<open>isBlackListed()\<close>
  says so, the executable exists, the minimum supported version is 50, and \<^verbatim>\<open>isValid()\<close>
  returns true.
\<close>

theorem isValid_blacklisted_policy_counterexample:
  "getExecutablePath chrome_class linux_world chrome_beta = Returns (Some ''/usr/bin/google-chrome'') \<and>
   lstatSync linux_world ''/usr/bin/google-chrome'' = Returns () \<and>
   getVersionNumber chrome_class linux_world chrome_beta = Returns 54 \<and>
   map_of (blacklist chrome_beta) 54 = Some ''2.25'' \<and>
   isBlackListed chrome_class linux_world chrome_beta = Returns True \<and>
   getMinSupportedVersion chrome_class linux_world chrome_beta = Returns (Some 50) \<and>
   isValid chrome_class linux_world chrome_beta = Returns True"
  by (simp add: isValid_def isValid_try_def chrome_class_def linux_world_def chrome_beta_def
      isBlackListed_by_table_def truthy_path_def path_string_def truthy_version_def to_number_def)

theorem isValid_blacklisted_witness:
  "isValid (chrome_class\<lparr>getMinSupportedVersion := LocalBrowser_getMinSupportedVersion\<rparr>)
     linux_world chrome_beta = Returns False \<and>
   isValid chrome_class linux_world (chrome_beta\<lparr>blacklist := []\<rparr>) = Returns True"
  using isValid_blacklisted [of "chrome_class\<lparr>getMinSupportedVersion := LocalBrowser_getMinSupportedVersion\<rparr>"
      linux_world chrome_beta "Some ''/usr/bin/google-chrome''" None 0]
    isValid_blacklisted [of chrome_class linux_world "chrome_beta\<lparr>blacklist := []\<rparr>"
      "Some ''/usr/bin/google-chrome''" "Some 50" 54]
  by (simp add: chrome_class_def linux_world_def chrome_beta_def LocalBrowser_getMinSupportedVersion_def
      isBlackListed_by_table_def truthy_path_def path_string_def truthy_version_def to_number_def)

text \<open>
  Claim C3, as amended. Whenever \<^verbatim>\<open>getExecutablePath()\<close> returns, \<^verbatim>\<open>isValid()\<close> returns a
  boolean and does not throw; an exception raised by \<^verbatim>\<open>fs.lstatSync\<close>, by
  \<^verbatim>\<open>_getMinSupportedVersion()\<close>, by \<^verbatim>\<open>getVersionNumber()\<close> or by \<^verbatim>\<open>isBlackListed()\<close> is
  swallowed and the call returns false. (An exception of \<^verbatim>\<open>getExecutablePath()\<close> itself is
  outside the \<^verbatim>\<open>try\<close> block.)
\<close>

theorem isValid_swallows:
  assumes "getExecutablePath cls w this = Returns executablePath"
  shows "(\<exists>b. isValid cls w this = Returns b) \<and>
         (lstatSync w (path_string executablePath) = Throws e \<longrightarrow>
            isValid cls w this = Returns False) \<and>
         (getMinSupportedVersion cls w this = Throws e \<longrightarrow>
            isValid cls w this = Returns False) \<and>
         (getMinSupportedVersion cls w this = Returns minVersion \<and> truthy_version minVersion \<and>
          getVersionNumber cls w this = Throws e \<longrightarrow>
            isValid cls w this = Returns False) \<and>
         (getMinSupportedVersion cls w this = Returns minVersion \<and> \<not> truthy_version minVersion \<and>
          isBlackListed cls w this = Throws e \<longrightarrow>
            isValid cls w this = Returns False)"
  using assms
  by (auto simp: isValid_def isValid_try_def split: outcome.splits)

text \<open>
  The claim as stated fails at the executable-path lookup: a subclass that inherits
  \<^verbatim>\<open>getExecutablePath()\<close> from \<^verbatim>\<open>LocalBrowser\<close> makes \<^verbatim>\<open>isValid()\<close> throw.
\<close>

theorem isValid_throws_counterexample:
  "isValid unfinished_class linux_world chrome_beta =
     Throws (Error ''getExecutablePath() must be overriden by subclasses'')"
  by (simp add: isValid_def unfinished_class_def LocalBrowser_getExecutablePath_def)

theorem isValid_swallows_witness:
  "isValid (chrome_class\<lparr>getExecutablePath := (\<lambda>w this. Returns (Some ''/opt/chrome''))\<rparr>)
     linux_world chrome_beta = Returns False \<and>
   isValid (chrome_class\<lparr>getMinSupportedVersion := (\<lambda>w this. Throws (Error ''no policy''))\<rparr>)
     linux_world chrome_beta = Returns False \<and>
   isValid (chrome_class\<lparr>getVersionNumber := LocalBrowser_getVersionNumber\<rparr>)
     linux_world chrome_beta = Returns False \<and>
   isValid (chrome_class\<lparr>getMinSupportedVersion := LocalBrowser_getMinSupportedVersion,
                         isBlackListed := isBlackListed_by_table LocalBrowser_getVersionNumber\<rparr>)
     linux_world chrome_beta = Returns False"
  using
    isValid_swallows [of "chrome_class\<lparr>getExecutablePath := (\<lambda>w this. Returns (Some ''/opt/chrome''))\<rparr>"
      linux_world chrome_beta "Some ''/opt/chrome''" "SystemError ''ENOENT: no such file or directory''"]
    isValid_swallows [of "chrome_class\<lparr>getMinSupportedVersion := (\<lambda>w this. Throws (Error ''no policy''))\<rparr>"
      linux_world chrome_beta "Some ''/usr/bin/google-chrome''" "Error ''no policy''"]
    isValid_swallows [of "chrome_class\<lparr>getVersionNumber := LocalBrowser_getVersionNumber\<rparr>"
      linux_world chrome_beta "Some ''/usr/bin/google-chrome''"
      "Error ''getVersionNumber() must be overriden by subclasses''" "Some 50"]
    isValid_swallows [of "chrome_class\<lparr>getMinSupportedVersion := LocalBrowser_getMinSupportedVersion,
                         isBlackListed := isBlackListed_by_table LocalBrowser_getVersionNumber\<rparr>"
      linux_world chrome_beta "Some ''/usr/bin/google-chrome''"
      "Error ''getVersionNumber() must be overriden by subclasses''" None]
  by (simp add: chrome_class_def linux_world_def path_string_def truthy_version_def
      LocalBrowser_getVersionNumber_def LocalBrowser_getMinSupportedVersion_def
      isBlackListed_by_table_def)

section \<open>Properties of getRawVersionString\<close>

lemma getRawVersionString_cached_value:
  "truthy (rawVerstionString this) \<Longrightarrow>
   getRawVersionString cls w this = (Returns (rawVerstionString this), this, w)"
  by (simp add: getRawVersionString_def)

lemma getRawVersionString_first:
  assumes "getRawVersionString cls w this = (Returns v1, this1, w1)"
  shows "(truthy v1 \<longrightarrow>
            rawVerstionString this1 = v1 \<and> length (exec_calls w1) \<le> length (exec_calls w) + 1) \<and>
         (exec_calls w1 = exec_calls w \<and> \<not> truthy v1 \<longrightarrow> w1 = w \<and> this1 = this \<and> v1 = JNull)"
  using assms
  by (auto simp: getRawVersionString_def execSync_def split: if_splits outcome.splits prod.splits)

text \<open>
  Claim C2, as amended. If the first call of \<^verbatim>\<open>getRawVersionString()\<close> returns a non-empty
  string, or launches no process at all, then two calls in a row launch the process at most
  once and both return the same value. (After a launch that failed or printed nothing the
  field holds a falsy value, which the next call does not take for a cached result.)
\<close>

theorem getRawVersionString_cached:
  assumes first: "getRawVersionString cls w this = (Returns v1, this1, w1)"
    and ok: "truthy v1 \<or> exec_calls w1 = exec_calls w"
  shows "\<exists>this2 w2. getRawVersionString_twice cls w this = (Returns v1, Returns v1, this2, w2) \<and>
           probes_between w w2 \<le> 1"
proof (cases "truthy v1")
  case True
  with getRawVersionString_first [OF first]
  have c: "rawVerstionString this1 = v1"
    and n: "length (exec_calls w1) \<le> length (exec_calls w) + 1"
    by simp_all
  from True c have "getRawVersionString cls w1 this1 = (Returns v1, this1, w1)"
    using getRawVersionString_cached_value [of this1 cls w1] by simp
  with first n show ?thesis
    by (simp add: getRawVersionString_twice_def probes_between_def)
next
  case False
  with ok getRawVersionString_first [OF first]
  have "w1 = w" and "this1 = this" and "v1 = JNull" by simp_all
  with first show ?thesis
    by (simp add: getRawVersionString_twice_def probes_between_def)
qed

text \<open>
  The claim as stated fails when the first launch fails: the first call returns
  \<^verbatim>\<open>null\<close>, the second call launches the process again, and here it returns a string.
\<close>

theorem getRawVersionString_twice_counterexample:
  "(case getRawVersionString_twice chrome_class linux_world chrome_beta of
      (r1, r2, this2, w2) \<Rightarrow>
        r1 = Returns JNull \<and> r2 = Returns (JStr ''Google Chrome 54.0.2840.59'') \<and>
        probes_between linux_world w2 = 2)"
  by (simp add: getRawVersionString_twice_def getRawVersionString_def execSync_def
      chrome_class_def linux_world_def chrome_beta_def truthy_path_def probes_between_def)

theorem getRawVersionString_cached_witness:
  "getRawVersionString chrome_class steady_world chrome_beta =
     (Returns (JStr ''Google Chrome 54.0.2840.59''),
      chrome_beta\<lparr>rawVerstionString := JStr ''Google Chrome 54.0.2840.59''\<rparr>,
      steady_world\<lparr>exec_calls := [version_command (Some ''/usr/bin/google-chrome'')]\<rparr>) \<and>
   truthy (JStr ''Google Chrome 54.0.2840.59'') \<and>
   (\<exists>this2 w2. getRawVersionString_twice chrome_class steady_world chrome_beta =
        (Returns (JStr ''Google Chrome 54.0.2840.59''),
         Returns (JStr ''Google Chrome 54.0.2840.59''), this2, w2) \<and>
      probes_between steady_world w2 \<le> 1)"
  using getRawVersionString_cached [of chrome_class steady_world chrome_beta
      "JStr ''Google Chrome 54.0.2840.59''"
      "chrome_beta\<lparr>rawVerstionString := JStr ''Google Chrome 54.0.2840.59''\<rparr>"
      "steady_world\<lparr>exec_calls := [version_command (Some ''/usr/bin/google-chrome'')]\<rparr>"]
  by (simp add: getRawVersionString_def execSync_def chrome_class_def steady_world_def
      linux_world_def chrome_beta_def truthy_path_def)

section \<open>Properties of getSeleniumDriver\<close>

text \<open>
  Claim C4. \<^verbatim>\<open>getSeleniumDriver()\<close> never throws: it returns a promise. An exception of
  \<^verbatim>\<open>getSeleniumDriverBuilder()\<close> or of \<^verbatim>\<open>builder.build()\<close> comes back as a promise rejected
  with that exception; a session that \<^verbatim>\<open>build()\<close> returns directly comes back as a promise
  resolved with it, and a deferred value comes back as it is.
\<close>

theorem getSeleniumDriver_never_throws:
  "(\<exists>p. fst (getSeleniumDriver cls w this) = Returns p) \<and>
   (getSeleniumDriverBuilder cls (load_driver_module cls w this) this = Throws err \<longrightarrow>
      fst (getSeleniumDriver cls w this) = Returns (Promise_reject err)) \<and>
   (getSeleniumDriverBuilder cls (load_driver_module cls w this) this = Returns bd \<longrightarrow>
      (build bd = Throws err \<longrightarrow>
         fst (getSeleniumDriver cls w this) = Returns (Promise_reject err)) \<and>
      (build bd = Returns (BuildSession d) \<longrightarrow>
         fst (getSeleniumDriver cls w this) = Returns (Promise_resolve d)) \<and>
      (build bd = Returns (BuildThenable deferred) \<longrightarrow>
         fst (getSeleniumDriver cls w this) = Returns deferred))"
  by (auto simp: getSeleniumDriver_def getSeleniumDriver_try_def Let_def
      split: outcome.splits build_result.splits)

theorem getSeleniumDriver_never_throws_witness:
  "fst (getSeleniumDriver (chrome_class\<lparr>getSeleniumDriverBuilder := LocalBrowser_getSeleniumDriverBuilder\<rparr>)
          linux_world chrome_beta) =
     Returns (Settles 0 (Rejected (Error ''getSeleniumDriverBuilder() must be overriden by subclasses''))) \<and>
   fst (getSeleniumDriver failing_class linux_world chrome_beta) =
     Returns (Settles 0 (Rejected (Error ''session not created''))) \<and>
   fst (getSeleniumDriver chrome_class linux_world chrome_beta) = Returns (Settles 0 (Fulfilled ())) \<and>
   fst (getSeleniumDriver deferred_class linux_world chrome_beta) = Returns (Settles 1500 (Fulfilled ()))"
  using
    getSeleniumDriver_never_throws [of
      "chrome_class\<lparr>getSeleniumDriverBuilder := LocalBrowser_getSeleniumDriverBuilder\<rparr>"
      linux_world chrome_beta "Error ''getSeleniumDriverBuilder() must be overriden by subclasses''"]
    getSeleniumDriver_never_throws [of failing_class linux_world chrome_beta
      "Error ''session not created''" "Builder (Throws (Error ''session not created''))"]
    getSeleniumDriver_never_throws [of chrome_class linux_world chrome_beta _
      "Builder (Returns (BuildSession ()))" "()"]
    getSeleniumDriver_never_throws [of deferred_class linux_world chrome_beta _
      "Builder (Returns (BuildThenable (Settles 1500 (Fulfilled ()))))" _ "Settles 1500 (Fulfilled ())"]
  by (simp add: chrome_class_def failing_class_def deferred_class_def
      LocalBrowser_getSeleniumDriverBuilder_def Promise_reject_def Promise_resolve_def)

section \<open>Properties of killWebDriver\<close>

text \<open>
  Claim C6. \<^verbatim>\<open>killWebDriver(null)\<close> and \<^verbatim>\<open>killWebDriver(undefined)\<close> return a promise that
  is already fulfilled, and perform nothing: no call of \<^verbatim>\<open>quit\<close>, no timer.
\<close>

theorem killWebDriver_nullish:
  "killWebDriver DriverNull = (Returns (Settles 0 (Fulfilled JUndefined)), []) \<and>
   killWebDriver DriverUndefined = (Returns (Settles 0 (Fulfilled JUndefined)), [])"
  by (simp add: killWebDriver_def Promise_resolve_def)

theorem killWebDriver_nullish_witness:
  "fst (killWebDriver DriverNull) = Returns (Promise_resolve JUndefined) \<and>
   snd (killWebDriver DriverNull) = [] \<and>
   fst (killWebDriver DriverUndefined) = Returns (Promise_resolve JUndefined) \<and>
   snd (killWebDriver DriverUndefined) = []"
  using killWebDriver_nullish by (simp add: Promise_resolve_def)

text \<open>
  Claim C7. For a driver that is neither \<^verbatim>\<open>null\<close> nor \<^verbatim>\<open>undefined\<close> and whose \<^verbatim>\<open>quit\<close>
  is missing or is no function, \<^verbatim>\<open>killWebDriver\<close> returns (and does not throw) a promise
  rejected with the error "Unable to find a quit method on the web driver.".
\<close>

theorem killWebDriver_no_quit:
  assumes "\<not> quit_is_function quit"
  shows "killWebDriver (DriverObject quit) =
           (Returns (Settles 0 (Rejected (Error ''Unable to find a quit method on the web driver.''))),
            [])"
  using assms by (simp add: killWebDriver_def Promise_reject_def)

theorem killWebDriver_no_quit_witness:
  "\<not> quit_is_function QuitMissing \<and>
   killWebDriver (DriverObject QuitMissing) =
     (Returns (Settles 0 (Rejected (Error ''Unable to find a quit method on the web driver.''))), []) \<and>
   \<not> quit_is_function (QuitValue (JStr ''quit'')) \<and>
   killWebDriver (DriverObject (QuitValue (JStr ''quit''))) =
     (Returns (Settles 0 (Rejected (Error ''Unable to find a quit method on the web driver.''))), [])"
  using killWebDriver_no_quit [of QuitMissing] killWebDriver_no_quit [of "QuitValue (JStr ''quit'')"]
  by simp

text \<open>
  Claim C10. When \<^verbatim>\<open>quit()\<close> returns a promise that rejects, after \<open>t\<close> ms with any error,
  the promise \<^verbatim>\<open>killWebDriver\<close> returns is fulfilled all the same, 2000 ms after the
  rejection or the 2000 ms timer, whichever comes first; the error is dropped.
\<close>

theorem killWebDriver_absorbs_rejection:
  "killWebDriver (DriverObject (QuitFunction (QuitPromise (Settles t (Rejected e))))) =
     (Returns (Settles (min t 2000 + 2000) (Fulfilled JUndefined)),
      [SetTimeout 2000, CallQuit, ClearTimeout, SetTimeout 2000])"
  by (simp add: killWebDriver_def Let_def quit_or_timeout_def timeout_promise_def min_def)

theorem killWebDriver_absorbs_rejection_witness:
  "fst (killWebDriver (DriverObject (QuitFunction
          (QuitPromise (Settles 500 (Rejected (Error ''chrome not reachable''))))))) =
     Returns (Settles 2500 (Fulfilled JUndefined))"
  using killWebDriver_absorbs_rejection [of 500 "Error ''chrome not reachable''"]
  by simp

section \<open>Properties of getLocalBrowsers\<close>

lemma js_filter_total:
  "(\<And>x. x \<in> set xs \<Longrightarrow> \<exists>b. f x = Returns b) \<Longrightarrow>
   js_filter f xs = Returns (filter (\<lambda>x. f x = Returns True) xs)"
proof (induction xs)
  case Nil
  show ?case by simp
next
  case (Cons x xs)
  from Cons.prems [of x] obtain b where b: "f x = Returns b" by auto
  from Cons.prems have "\<And>y. y \<in> set xs \<Longrightarrow> \<exists>b. f y = Returns b" by simp
  then have "js_filter f xs = Returns (filter (\<lambda>x. f x = Returns True) xs)"
    by (rule Cons.IH)
  with b show ?case by simp
qed

lemma getLocalBrowsers_total:
  assumes "platform = ''darwin'' \<or> platform = ''linux''"
    and "\<And>b. b \<in> set supportedBrowsers \<Longrightarrow> \<exists>p. getExecutablePath (fst b) w (snd b) = Returns p"
  shows "getLocalBrowsers platform supportedBrowsers w =
           Returns (filter (\<lambda>b. browser_isValid w b = Returns True) supportedBrowsers)"
proof -
  have "\<And>b. b \<in> set supportedBrowsers \<Longrightarrow> \<exists>r. browser_isValid w b = Returns r"
    unfolding browser_isValid_def using assms(2) isValid_path_returns by blast
  then have "js_filter (browser_isValid w) supportedBrowsers =
      Returns (filter (\<lambda>b. browser_isValid w b = Returns True) supportedBrowsers)"
    by (rule js_filter_total)
  with assms(1) show ?thesis
    by (auto simp: getLocalBrowsers_def)
qed

lemma getSupportedBrowsers_path:
  "b \<in> set (getSupportedBrowsers known) \<Longrightarrow> \<exists>p. getExecutablePath (fst b) w (snd b) = Returns p"
  by (auto simp: getSupportedBrowsers_def class_of_known_def)

text \<open>
  Claim C8. \<^verbatim>\<open>getLocalBrowsers()\<close> throws exactly when the platform is neither \<^verbatim>\<open>darwin\<close>
  nor \<^verbatim>\<open>linux\<close>, and then at once, with the platform error. On a supported platform it
  returns exactly the known browsers for which \<^verbatim>\<open>isValid()\<close> is true, in their order,
  whatever the other methods of a known browser do: no browser makes it throw.
\<close>

theorem getLocalBrowsers_filters:
  "((\<exists>e. getLocalBrowsers platform (getSupportedBrowsers known) w = Throws e) \<longleftrightarrow>
      platform \<noteq> ''darwin'' \<and> platform \<noteq> ''linux'') \<and>
   (platform \<noteq> ''darwin'' \<and> platform \<noteq> ''linux'' \<longrightarrow>
      getLocalBrowsers platform (getSupportedBrowsers known) w =
        Throws (Error ''Sorry this library only supports OS X and Linux.'')) \<and>
   (platform = ''darwin'' \<or> platform = ''linux'' \<longrightarrow>
      getLocalBrowsers platform (getSupportedBrowsers known) w =
        Returns (filter (\<lambda>b. browser_isValid w b = Returns True) (getSupportedBrowsers known)))"
proof (cases "platform = ''darwin'' \<or> platform = ''linux''")
  case True
  then have "getLocalBrowsers platform (getSupportedBrowsers known) w =
      Returns (filter (\<lambda>b. browser_isValid w b = Returns True) (getSupportedBrowsers known))"
    using getSupportedBrowsers_path by (rule getLocalBrowsers_total)
  with True show ?thesis by auto
next
  case False
  then have "getLocalBrowsers platform (getSupportedBrowsers known) w =
      Throws (Error ''Sorry this library only supports OS X and Linux.'')"
    by (simp add: getLocalBrowsers_def)
  with False show ?thesis by auto
qed

theorem getLocalBrowsers_filters_witness:
  "getLocalBrowsers ''win32''
     (getSupportedBrowsers [(chrome_known, chrome_beta), (firefox_known, firefox_stable)]) linux_world =
     Throws (Error ''Sorry this library only supports OS X and Linux.'') \<and>
   getLocalBrowsers ''linux''
     (getSupportedBrowsers [(chrome_known, chrome_beta), (firefox_known, firefox_stable)]) linux_world =
     Returns [(class_of_known chrome_known, chrome_beta)]"
  using
    getLocalBrowsers_filters [of "''win32''"
      "[(chrome_known, chrome_beta), (firefox_known, firefox_stable)]" linux_world]
    getLocalBrowsers_filters [of "''linux''"
      "[(chrome_known, chrome_beta), (firefox_known, firefox_stable)]" linux_world]
  by (simp add: getSupportedBrowsers_def class_of_known_def chrome_known_def firefox_known_def
      browser_isValid_def isValid_def isValid_try_def
      chrome_class_def firefox_class_def linux_world_def
      chrome_beta_def isBlackListed_by_table_def truthy_path_def path_string_def
      truthy_version_def to_number_def)

section \<open>Properties of the constructor\<close>

text \<open>
  Claim C9. When the constructor returns an instance, \<^verbatim>\<open>getReleaseName()\<close> of it is the
  release passed to the constructor, and that release is one of \<^verbatim>\<open>'stable'\<close>, \<^verbatim>\<open>'beta'\<close>,
  \<^verbatim>\<open>'unstable'\<close>; with any other release value the constructor throws.
\<close>

theorem constructor_release:
  "(LocalBrowser_constructor cls super cfg rel bl = Returns this \<longrightarrow>
      getReleaseName this = rel \<and> rel \<in> {JStr ''stable'', JStr ''beta'', JStr ''unstable''}) \<and>
   (rel \<notin> {JStr ''stable'', JStr ''beta'', JStr ''unstable''} \<longrightarrow>
      (\<exists>e. LocalBrowser_constructor cls super cfg rel bl = Throws e))"
  by (auto simp: LocalBrowser_constructor_def getReleaseName_def split: outcome.splits if_splits)

theorem constructor_release_witness:
  "LocalBrowser_constructor chrome_class Browser_constructor_ok chrome_config (JStr ''beta'') [(54, ''2.25'')]
     = Returns chrome_beta \<and>
   getReleaseName chrome_beta = JStr ''beta'' \<and>
   JStr ''nightly'' \<notin> {JStr ''stable'', JStr ''beta'', JStr ''unstable''} \<and>
   (\<exists>e. LocalBrowser_constructor chrome_class Browser_constructor_ok chrome_config (JStr ''nightly'') []
      = Throws e)"
  using constructor_release [of chrome_class Browser_constructor_ok chrome_config "JStr ''nightly''" "[]"]
    constructor_release [of chrome_class Browser_constructor_ok chrome_config "JStr ''beta''"
      "[(54, ''2.25'')]" chrome_beta]
  by (simp add: LocalBrowser_constructor_def chrome_class_def chrome_config_def chrome_beta_def
      Browser_constructor_ok_def invalid_prettyName_def string_of_def getReleaseName_def)

end
